theory Spec2Isabelle
  imports Complex_Main
begin

section \<open>Numbers and coordinates as the JavaScript code reads them\<close>

text \<open>
  The program is \<^verbatim>\<open>src/ninetiesCounter.js\<close>. Its numbers are modelled as real numbers
  with exact arithmetic (rounding and infinities of IEEE doubles are not modelled). A value
  that is read where a number is expected goes through JavaScript's \<^verbatim>\<open>ToNumber\<close>; the
  result \<^verbatim>\<open>NaN\<close> is \<open>None\<close>. Every comparison with \<^verbatim>\<open>NaN\<close> is false and every
  arithmetic operation on \<^verbatim>\<open>NaN\<close> gives \<^verbatim>\<open>NaN\<close>.
\<close>

type_synonym num = "real option"

fun js_lt :: "num \<Rightarrow> num \<Rightarrow> bool" where
  "js_lt (Some a) (Some b) = (a < b)"
| "js_lt _ _ = False"

fun js_gt :: "num \<Rightarrow> num \<Rightarrow> bool" where
  "js_gt (Some a) (Some b) = (a > b)"
| "js_gt _ _ = False"

fun js_le :: "num \<Rightarrow> num \<Rightarrow> bool" where
  "js_le (Some a) (Some b) = (a \<le> b)"
| "js_le _ _ = False"

fun js_ge :: "num \<Rightarrow> num \<Rightarrow> bool" where
  "js_ge (Some a) (Some b) = (a \<ge> b)"
| "js_ge _ _ = False"

fun js_add :: "num \<Rightarrow> num \<Rightarrow> num" where
  "js_add (Some a) (Some b) = Some (a + b)"
| "js_add _ _ = None"

fun js_sub :: "num \<Rightarrow> num \<Rightarrow> num" where
  "js_sub (Some a) (Some b) = Some (a - b)"
| "js_sub _ _ = None"

fun js_mul :: "num \<Rightarrow> num \<Rightarrow> num" where
  "js_mul (Some a) (Some b) = Some (a * b)"
| "js_mul _ _ = None"

text \<open>
  A zero divisor gives an infinity or \<^verbatim>\<open>NaN\<close> in JavaScript; it is \<open>None\<close> here.
  \<open>pointInPolygon\<close>, the only function that divides, does so only after it has checked
  that the two ordinates differ.
\<close>

fun js_div :: "num \<Rightarrow> num \<Rightarrow> num" where
  "js_div (Some a) (Some b) = (if b = 0 then None else Some (a / b))"
| "js_div _ _ = None"

text \<open>
  JSON values as far as coordinate arrays need them, and \<^verbatim>\<open>ToNumber\<close> on them: an array
  is first turned into the string of its elements joined by commas, so an empty array
  reads as 0, a one-element array as its element (an undefined element prints as the empty
  string), and an array of two or more elements as \<^verbatim>\<open>NaN\<close>.
\<close>

datatype jsval = Undefined | Number real | Array "jsval list"

fun toNumber :: "jsval \<Rightarrow> num" where
  "toNumber Undefined = None"
| "toNumber (Number r) = Some r"
| "toNumber (Array []) = Some 0"
| "toNumber (Array [v]) = (case v of Undefined \<Rightarrow> Some 0 | _ \<Rightarrow> toNumber v)"
| "toNumber (Array (v # w # vs)) = None"

text \<open>\<^verbatim>\<open>a[i]\<close> on an array: \<^verbatim>\<open>undefined\<close> out of range.\<close>

definition elem_at :: "jsval list \<Rightarrow> nat \<Rightarrow> jsval" where
  "elem_at a i = (if i < length a then a ! i else Undefined)"

text \<open>A GeoJSON position \<^verbatim>\<open>[lon, lat]\<close>.\<close>

type_synonym position = "real \<times> real"

text \<open>
  The object \<^verbatim>\<open>{ x: e[0], y: e[1] }\<close> (or the destructuring \<^verbatim>\<open>[lon, lat] = e\<close>) built
  from an array element \<open>e\<close>, each field as a comparison or a subtraction reads it.
\<close>

type_synonym jpoint = "num \<times> num"

definition elem_xy :: "jsval list \<Rightarrow> jpoint" where
  "elem_xy e = (toNumber (elem_at e 0), toNumber (elem_at e 1))"

definition js_position :: "position \<Rightarrow> jsval list" where
  "js_position p = [Number (fst p), Number (snd p)]"

definition js_ring :: "position list \<Rightarrow> jsval list" where
  "js_ring r = map (\<lambda>p. Array (js_position p)) r"

text \<open>The element of a line or ring: a position.\<close>

definition xy :: "position \<Rightarrow> jpoint" where
  "xy p = elem_xy (js_position p)"

text \<open>
  The element of an array of rings read as if it were a position: its first two entries
  are positions themselves (or missing).
\<close>

definition ring_xy :: "position list \<Rightarrow> jpoint" where
  "ring_xy r = elem_xy (js_ring r)"

section \<open>Geometry intersection helpers\<close>

text \<open>\<^verbatim>\<open>L.LatLngBounds\<close>, read through \<^verbatim>\<open>getWest()\<close>, \<^verbatim>\<open>getSouth()\<close>, \<^verbatim>\<open>getEast()\<close>, \<^verbatim>\<open>getNorth()\<close>.\<close>

record bounds =
  getWest :: real
  getSouth :: real
  getEast :: real
  getNorth :: real

record rect =
  minX :: real
  minY :: real
  maxX :: real
  maxY :: real

definition rect_of :: "bounds \<Rightarrow> rect" where
  "rect_of b = \<lparr> minX = getWest b, minY = getSouth b, maxX = getEast b, maxY = getNorth b \<rparr>"

fun pointInRectangle :: "jpoint \<Rightarrow> rect \<Rightarrow> bool" where
  "pointInRectangle (x, y) r =
     (js_ge x (Some (minX r)) \<and> js_le x (Some (maxX r)) \<and>
      js_ge y (Some (minY r)) \<and> js_le y (Some (maxY r)))"

fun ccw :: "jpoint \<Rightarrow> jpoint \<Rightarrow> jpoint \<Rightarrow> bool" where
  "ccw (ax, ay) (bx, by) (cx, cy) =
     js_gt (js_mul (js_sub cy ay) (js_sub bx ax)) (js_mul (js_sub by ay) (js_sub cx ax))"

definition lineSegmentsIntersect :: "jpoint \<Rightarrow> jpoint \<Rightarrow> jpoint \<Rightarrow> jpoint \<Rightarrow> bool" where
  "lineSegmentsIntersect p1 p2 p3 p4 =
     (ccw p1 p3 p4 \<noteq> ccw p2 p3 p4 \<and> ccw p1 p2 p3 \<noteq> ccw p1 p2 p4)"

definition edges :: "rect \<Rightarrow> (jpoint \<times> jpoint) list" where
  "edges r =
     [((Some (minX r), Some (minY r)), (Some (maxX r), Some (minY r))),
      ((Some (maxX r), Some (minY r)), (Some (maxX r), Some (maxY r))),
      ((Some (maxX r), Some (maxY r)), (Some (minX r), Some (maxY r))),
      ((Some (minX r), Some (maxY r)), (Some (minX r), Some (minY r)))]"

definition lineSegmentIntersectsRectangle :: "jpoint \<Rightarrow> jpoint \<Rightarrow> rect \<Rightarrow> bool" where
  "lineSegmentIntersectsRectangle p1 p2 r =
     (if pointInRectangle p1 r \<or> pointInRectangle p2 r then True
      else list_ex (\<lambda>edge. lineSegmentsIntersect p1 p2 (fst edge) (snd edge)) (edges r))"

text \<open>The second loop of \<open>lineIntersectsRectangle\<close> and the loop of
  \<open>polygonIntersectsRectangle\<close>: \<^verbatim>\<open>for (i = 0; i < a.length - 1; i++)\<close> over the segments
  \<^verbatim>\<open>a[i]\<close>, \<^verbatim>\<open>a[i + 1]\<close>.\<close>

fun anySegmentIntersects :: "jpoint list \<Rightarrow> rect \<Rightarrow> bool" where
  "anySegmentIntersects (p1 # p2 # ps) r =
     (if lineSegmentIntersectsRectangle p1 p2 r then True else anySegmentIntersects (p2 # ps) r)"
| "anySegmentIntersects _ r = False"

definition lineIntersectsRectangle :: "jpoint list \<Rightarrow> bounds \<Rightarrow> bool" where
  "lineIntersectsRectangle line b =
     (let r = rect_of b in
      if list_ex (\<lambda>point. pointInRectangle point r) line then True
      else anySegmentIntersects line r)"

text \<open>The loop of \<open>pointInPolygon\<close>: \<open>pj\<close> is \<^verbatim>\<open>polygon[j]\<close>, the element before the current
  one (the last element at the start).\<close>

fun crosses :: "jpoint \<Rightarrow> jpoint \<Rightarrow> jpoint \<Rightarrow> bool" where
  "crosses (px, py) (xi, yi) (xj, yj) =
     (if js_gt yi py \<noteq> js_gt yj py
      then js_lt px (js_add (js_div (js_mul (js_sub xj xi) (js_sub py yi)) (js_sub yj yi)) xi)
      else False)"

fun pointInPolygon_loop :: "jpoint \<Rightarrow> jpoint \<Rightarrow> jpoint list \<Rightarrow> bool \<Rightarrow> bool" where
  "pointInPolygon_loop point pj [] inside = inside"
| "pointInPolygon_loop point pj (pcur # rest) inside =
     pointInPolygon_loop point pcur rest (if crosses point pcur pj then \<not> inside else inside)"

definition pointInPolygon :: "jpoint \<Rightarrow> jpoint list \<Rightarrow> bool" where
  "pointInPolygon point polygon =
     (case polygon of [] \<Rightarrow> False
      | _ \<Rightarrow> pointInPolygon_loop point (last polygon) polygon False)"

definition rectCorners :: "rect \<Rightarrow> jpoint list" where
  "rectCorners r =
     [(Some (minX r), Some (minY r)), (Some (maxX r), Some (minY r)),
      (Some (maxX r), Some (maxY r)), (Some (minX r), Some (maxY r))]"

definition polygonIntersectsRectangle :: "jpoint list \<Rightarrow> bounds \<Rightarrow> bool" where
  "polygonIntersectsRectangle polygon b =
     (let r = rect_of b in
      if anySegmentIntersects polygon r then True
      else list_all (\<lambda>corner. pointInPolygon corner polygon) (rectCorners r))"

section \<open>Features and the client-side filters\<close>

text \<open>
  A feature's geometry as the filters dispatch on it: the \<^verbatim>\<open>type\<close> string with the
  \<^verbatim>\<open>coordinates\<close> of the shape GeoJSON gives that type. \<open>OtherGeometry\<close> is any other
  type string. A feature whose \<^verbatim>\<open>geometry\<close> or \<^verbatim>\<open>geometry.coordinates\<close> is missing has
  \<open>geometry = None\<close>.
\<close>

datatype geometry =
    Point position
  | LineString "position list"
  | MultiLineString "position list list"
  | Polygon "position list list"
  | MultiPolygon "position list list list"
  | OtherGeometry

record feature =
  geometry :: "geometry option"
  properties :: "(string \<times> string) list"
  layerName :: "string option"

datatype js_error = TypeError | HttpError | NetworkFailure | SyntaxError | QueryError

text \<open>The test written inline in the filters:
  \<^verbatim>\<open>lon >= bounds.getWest() && lon <= bounds.getEast() && lat >= bounds.getSouth() && lat <= bounds.getNorth()\<close>.\<close>

fun withinBounds :: "bounds \<Rightarrow> jpoint \<Rightarrow> bool" where
  "withinBounds b (lon, lat) =
     (js_ge lon (Some (getWest b)) \<and> js_le lon (Some (getEast b)) \<and>
      js_ge lat (Some (getSouth b)) \<and> js_le lat (Some (getNorth b)))"

subsection \<open>The filter of the first fetch of \<open>fetchQueryEnhanced\<close>\<close>

definition primaryLineInBounds :: "bounds \<Rightarrow> position list \<Rightarrow> bool" where
  "primaryLineInBounds b line =
     (let hasPointInBounds = list_ex (withinBounds b) (map xy line);
          intersectsBounds = lineIntersectsRectangle (map xy line) b
      in hasPointInBounds \<or> intersectsBounds)"

text \<open>
  Here \<open>polygon\<close> is the array of rings of one polygon, and the code hands it as it is to
  \<^verbatim>\<open>polygon.some(point => ...)\<close> and to \<open>polygonIntersectsRectangle\<close>, which read each
  element as a position.
\<close>

definition primaryPolygonInBounds :: "bounds \<Rightarrow> position list list \<Rightarrow> bool" where
  "primaryPolygonInBounds b polygon =
     (let hasPointInBounds = list_ex (withinBounds b) (map ring_xy polygon);
          intersectsBounds = polygonIntersectsRectangle (map ring_xy polygon) b
      in hasPointInBounds \<or> intersectsBounds)"

definition primaryInBounds :: "bounds \<Rightarrow> feature \<Rightarrow> bool" where
  "primaryInBounds b f =
     (case geometry f of
        None \<Rightarrow> False
      | Some (Point p) \<Rightarrow> withinBounds b (xy p)
      | Some (LineString line) \<Rightarrow> list_ex (primaryLineInBounds b) [line]
      | Some (MultiLineString lines) \<Rightarrow> list_ex (primaryLineInBounds b) lines
      | Some (Polygon rings) \<Rightarrow> list_ex (primaryPolygonInBounds b) [rings]
      | Some (MultiPolygon polygons) \<Rightarrow> list_ex (primaryPolygonInBounds b) polygons
      | Some OtherGeometry \<Rightarrow> False)"

subsection \<open>The filter of the fallback fetch\<close>

text \<open>\<^verbatim>\<open>Math.min(...xs)\<close> and \<^verbatim>\<open>Math.max(...xs)\<close> of a non-empty array, given as head and tail.\<close>

definition mathMin :: "real \<Rightarrow> real list \<Rightarrow> real" where
  "mathMin x xs = fold min xs x"

definition mathMax :: "real \<Rightarrow> real list \<Rightarrow> real" where
  "mathMax x xs = fold max xs x"

record lonLatBox =
  minLon :: real
  maxLon :: real
  minLat :: real
  maxLat :: real

definition lineBoundingBox :: "position list \<Rightarrow> lonLatBox option" where
  "lineBoundingBox line =
     (case line of
        [] \<Rightarrow> None
      | p # ps \<Rightarrow>
          Some \<lparr> minLon = mathMin (fst p) (map fst ps), maxLon = mathMax (fst p) (map fst ps),
                 minLat = mathMin (snd p) (map snd ps), maxLat = mathMax (snd p) (map snd ps) \<rparr>)"

definition boundingBoxOverlaps :: "bounds \<Rightarrow> position list \<Rightarrow> bool" where
  "boundingBoxOverlaps b line =
     (case lineBoundingBox line of
        None \<Rightarrow> False
      | Some box \<Rightarrow>
          minLon box \<le> getEast b \<and> maxLon box \<ge> getWest b \<and>
          minLat box \<le> getNorth b \<and> maxLat box \<ge> getSouth b)"

definition fallbackLineInBounds :: "bounds \<Rightarrow> position list \<Rightarrow> bool" where
  "fallbackLineInBounds b line =
     (let hasPointInBounds = list_ex (withinBounds b) (map xy line);
          intersectsBounds = lineIntersectsRectangle (map xy line) b
      in hasPointInBounds \<or> intersectsBounds \<or> boundingBoxOverlaps b line)"

text \<open>
  The fallback reads the outer ring \<^verbatim>\<open>polygon[0]\<close>; on a polygon with no ring that is
  \<^verbatim>\<open>undefined\<close> and \<^verbatim>\<open>polygon[0].some\<close> throws a TypeError.
\<close>

definition fallbackPolygonInBounds :: "bounds \<Rightarrow> position list list \<Rightarrow> js_error + bool" where
  "fallbackPolygonInBounds b polygon =
     (case polygon of
        [] \<Rightarrow> Inl TypeError
      | ring # _ \<Rightarrow>
          (let hasVertexInBounds = list_ex (withinBounds b) (map xy ring);
               intersectsBounds = polygonIntersectsRectangle (map xy ring) b
           in Inr (hasVertexInBounds \<or> intersectsBounds)))"

text \<open>\<^verbatim>\<open>Array.prototype.some\<close> and \<^verbatim>\<open>filter\<close> with a callback that may throw: the elements
  are visited in order and the first exception leaves the loop.\<close>

fun some_throwing :: "('a \<Rightarrow> js_error + bool) \<Rightarrow> 'a list \<Rightarrow> js_error + bool" where
  "some_throwing f [] = Inr False"
| "some_throwing f (x # xs) =
     (case f x of
        Inl e \<Rightarrow> Inl e
      | Inr found \<Rightarrow> if found then Inr True else some_throwing f xs)"

fun filter_throwing :: "('a \<Rightarrow> js_error + bool) \<Rightarrow> 'a list \<Rightarrow> js_error + 'a list" where
  "filter_throwing f [] = Inr []"
| "filter_throwing f (x # xs) =
     (case f x of
        Inl e \<Rightarrow> Inl e
      | Inr keep \<Rightarrow>
          (case filter_throwing f xs of
             Inl e \<Rightarrow> Inl e
           | Inr ys \<Rightarrow> Inr (if keep then x # ys else ys)))"

definition fallbackInBounds :: "bounds \<Rightarrow> feature \<Rightarrow> js_error + bool" where
  "fallbackInBounds b f =
     (case geometry f of
        None \<Rightarrow> Inr False
      | Some (Point p) \<Rightarrow> Inr (withinBounds b (xy p))
      | Some (LineString line) \<Rightarrow> Inr (list_ex (fallbackLineInBounds b) [line])
      | Some (MultiLineString lines) \<Rightarrow> Inr (list_ex (fallbackLineInBounds b) lines)
      | Some (Polygon rings) \<Rightarrow> some_throwing (fallbackPolygonInBounds b) [rings]
      | Some (MultiPolygon polygons) \<Rightarrow> some_throwing (fallbackPolygonInBounds b) polygons
      | Some OtherGeometry \<Rightarrow> Inr False)"

section \<open>The spatial query orchestrator\<close>

record layer =
  name :: string
  url :: string
  visible :: bool

text \<open>
  The query string of a fetch, by its parts: \<open>WhereAll n\<close> is
  \<^verbatim>\<open>maxRecordCount=n&limit=n&where=1%3D1\<close>, and \<open>Intersects n e\<close> is
  \<^verbatim>\<open>maxRecordCount=n&limit=n&geometry=e&geometryType=esriGeometryEnvelope&spatialRel=esriSpatialRelIntersects\<close>.
\<close>

record envelope =
  xmin :: real
  ymin :: real
  xmax :: real
  ymax :: real

datatype query = WhereAll nat | Intersects nat envelope

datatype request =
    Fetch string query
  | EsriWithin string nat bounds

text \<open>
  What the network answers. A \<^verbatim>\<open>fetch\<close> is rejected (network failure, time-out) or
  gives a response with its \<^verbatim>\<open>ok\<close> flag and a body, which \<^verbatim>\<open>response.json()\<close> parses or not;
  \<open>Parsed None\<close> is a body without \<^verbatim>\<open>features\<close>. The ESRI Leaflet query calls back with an
  error or a feature collection (\<open>None\<close>: no collection or no \<^verbatim>\<open>features\<close> in it).
  Every request is answered; a query whose callback is never called is not modelled.
\<close>

datatype body = Unparsable | Parsed "feature list option"

datatype http = Rejected | Response bool body

datatype esri_result = EsriError | FeatureCollection "feature list option"

record network =
  fetch :: "string \<Rightarrow> query \<Rightarrow> http"
  run :: "string \<Rightarrow> nat \<Rightarrow> bounds \<Rightarrow> esri_result"

text \<open>A settled promise (\<open>Inl\<close>: rejected), with the \<^verbatim>\<open>console.error\<close> lines written and
  the requests sent on the way.\<close>

record settled =
  outcome :: "js_error + feature list"
  consoleErrors :: "string list"
  issued :: "request list"

definition queryUrl :: "bounds \<Rightarrow> real \<Rightarrow> query" where
  "queryUrl b zoomLevel =
     (if zoomLevel < 8 then WhereAll 1000
      else if zoomLevel < 10 then
        (let boundsExpansion = 0.1;
             expandedBounds = \<lparr> xmin = getWest b - boundsExpansion,
                                 ymin = getSouth b - boundsExpansion,
                                 xmax = getEast b + boundsExpansion,
                                 ymax = getNorth b + boundsExpansion \<rparr>
         in Intersects 500 expandedBounds)
      else
        (let expansion = 0.001
         in Intersects 500 \<lparr> xmin = getWest b - expansion, ymin = getSouth b - expansion,
                               xmax = getEast b + expansion, ymax = getNorth b + expansion \<rparr>))"

definition withLayerName :: "layer \<Rightarrow> feature list \<Rightarrow> feature list" where
  "withLayerName l fs = map (\<lambda>f. f\<lparr> layerName := Some (name l) \<rparr>) fs"

text \<open>The two \<^verbatim>\<open>then\<close> steps after the first fetch.\<close>

definition primaryThen :: "layer \<Rightarrow> bounds \<Rightarrow> http \<Rightarrow> js_error + feature list" where
  "primaryThen l b r =
     (case r of
        Rejected \<Rightarrow> Inl NetworkFailure
      | Response ok data \<Rightarrow>
          if \<not> ok then Inl HttpError
          else (case data of
                  Unparsable \<Rightarrow> Inl SyntaxError
                | Parsed None \<Rightarrow> Inr []
                | Parsed (Some features) \<Rightarrow>
                    if length features > 0
                    then Inr (withLayerName l (filter (primaryInBounds b) features))
                    else Inr []))"

text \<open>The two \<^verbatim>\<open>then\<close> steps after the fallback fetch (no test of \<^verbatim>\<open>response.ok\<close>).\<close>

definition fallbackThen :: "layer \<Rightarrow> bounds \<Rightarrow> http \<Rightarrow> js_error + feature list" where
  "fallbackThen l b r =
     (case r of
        Rejected \<Rightarrow> Inl NetworkFailure
      | Response ok data \<Rightarrow>
          (case data of
             Unparsable \<Rightarrow> Inl SyntaxError
           | Parsed None \<Rightarrow> Inr []
           | Parsed (Some features) \<Rightarrow>
               if length features > 0
               then (case filter_throwing (fallbackInBounds b) features of
                       Inl e \<Rightarrow> Inl e
                     | Inr filteredFeatures \<Rightarrow> Inr (withLayerName l filteredFeatures))
               else Inr []))"

definition fetchQueryEnhanced :: "network \<Rightarrow> layer \<Rightarrow> bounds \<Rightarrow> real \<Rightarrow> settled" where
  "fetchQueryEnhanced net l b zoomLevel =
     (let q = queryUrl b zoomLevel in
      case primaryThen l b (fetch net (url l) q) of
        Inr fs \<Rightarrow> \<lparr> outcome = Inr fs, consoleErrors = [], issued = [Fetch (url l) q] \<rparr>
      | Inl error \<Rightarrow>
          (let fallbackUrl = WhereAll 500;
               sent = [Fetch (url l) q, Fetch (url l) fallbackUrl];
               logged = [''Error querying '' @ name l @ '' layer:'']
           in case fallbackThen l b (fetch net (url l) fallbackUrl) of
                Inr fs \<Rightarrow> \<lparr> outcome = Inr fs, consoleErrors = logged, issued = sent \<rparr>
              | Inl fallbackError \<Rightarrow>
                  \<lparr> outcome = Inr [],
                    consoleErrors = logged @ [''Fallback query also failed for '' @ name l @ '':''],
                    issued = sent \<rparr>))"

definition fetchQuery :: "network \<Rightarrow> layer \<Rightarrow> bounds \<Rightarrow> settled" where
  "fetchQuery net l b = fetchQueryEnhanced net l b 10"

text \<open>The promise that \<open>queryFeaturesInBounds\<close> makes for one visible layer.\<close>

definition queryLayer :: "network \<Rightarrow> bounds \<Rightarrow> layer \<Rightarrow> settled" where
  "queryLayer net b l =
     (let sent = [EsriWithin (url l) 100 b] in
      case run net (url l) 100 b of
        EsriError \<Rightarrow>
          (let s = fetchQuery net l b
           in s\<lparr> consoleErrors := (''ESRI Leaflet query error for '' @ name l @ '':'') # consoleErrors s,
                  issued := sent @ issued s \<rparr>)
      | FeatureCollection fc \<Rightarrow>
          (case fc of
             Some features \<Rightarrow>
               if length features > 0
               then \<lparr> outcome = Inr (withLayerName l features), consoleErrors = [], issued = sent \<rparr>
               else (let s = fetchQuery net l b in s\<lparr> issued := sent @ issued s \<rparr>)
           | None \<Rightarrow> (let s = fetchQuery net l b in s\<lparr> issued := sent @ issued s \<rparr>)))"

record layerStates =
  bridges :: bool
  conduits :: bool
  roads :: bool
  boundaries :: bool

definition visibleLayers :: "layerStates \<Rightarrow> layer list" where
  "visibleLayers ls =
     filter visible
       [\<lparr> name = ''bridges'',
          url = ''https://gis.dot.state.oh.us/arcgis/rest/services/TIMS/Assets/MapServer/5'',
          visible = bridges ls \<rparr>,
        \<lparr> name = ''conduits'',
          url = ''https://gis.dot.state.oh.us/arcgis/rest/services/TIMS/Assets/MapServer/4'',
          visible = conduits ls \<rparr>,
        \<lparr> name = ''roads'',
          url = ''https://gis.dot.state.oh.us/arcgis/rest/services/TIMS/Roadway_Information/MapServer/8'',
          visible = roads ls \<rparr>,
        \<lparr> name = ''boundaries'',
          url = ''https://gis.dot.state.oh.us/arcgis/rest/services/TIMS/Boundaries/MapServer/1'',
          visible = boundaries ls \<rparr>]"

text \<open>\<^verbatim>\<open>Promise.all\<close>: fulfilled with all the values, or rejected as soon as one promise is.\<close>

fun promiseAll :: "(js_error + 'a) list \<Rightarrow> js_error + 'a list" where
  "promiseAll [] = Inr []"
| "promiseAll (Inl e # ps) = Inl e"
| "promiseAll (Inr x # ps) = (case promiseAll ps of Inl e \<Rightarrow> Inl e | Inr xs \<Rightarrow> Inr (x # xs))"

text \<open>
  What a call of \<open>queryFeaturesInBounds\<close> has done once its promises are settled: the list
  given to \<^verbatim>\<open>setSelectedFeatures\<close>, the flag given to \<^verbatim>\<open>setShowFeaturePopup\<close>, the
  \<^verbatim>\<open>console.error\<close> lines and the requests, layer by layer. \<open>rejected\<close> tells whether the
  \<^verbatim>\<open>catch\<close> handler of \<^verbatim>\<open>Promise.all\<close> ran.
\<close>

record queried =
  selectedFeatures :: "feature list"
  showFeaturePopup :: bool
  rejected :: bool
  errorsLogged :: "string list"
  requestsIssued :: "request list"

definition queryFeaturesInBounds :: "network \<Rightarrow> bounds \<Rightarrow> layerStates \<Rightarrow> queried" where
  "queryFeaturesInBounds net b ls =
     (let layers = visibleLayers ls in
      if length layers = 0
      then \<lparr> selectedFeatures = [], showFeaturePopup = True, rejected = False,
             errorsLogged = [], requestsIssued = [] \<rparr>
      else
        (let queryPromises = map (queryLayer net b) layers;
             logged = concat (map consoleErrors queryPromises);
             sent = concat (map issued queryPromises)
         in case promiseAll (map outcome queryPromises) of
              Inr results \<Rightarrow>
                \<lparr> selectedFeatures = concat results, showFeaturePopup = True, rejected = False,
                  errorsLogged = logged, requestsIssued = sent \<rparr>
            | Inl error \<Rightarrow>
                \<lparr> selectedFeatures = [], showFeaturePopup = True, rejected = True,
                  errorsLogged = logged @ [''Error querying features:''], requestsIssued = sent \<rparr>))"

text \<open>\<open>ValidationUtils.validateBounds\<close> on a bounds object (the tests of the object's shape
  hold for every \<^verbatim>\<open>L.LatLngBounds\<close>).\<close>

definition validateBounds :: "bounds \<Rightarrow> bool" where
  "validateBounds b =
     (let north = getNorth b; south = getSouth b; east = getEast b; west = getWest b in
      if north < -90 \<or> north > 90 then False
      else if south < -90 \<or> south > 90 then False
      else if east < -180 \<or> east > 180 then False
      else if west < -180 \<or> west > 180 then False
      else True)"

section \<open>The client-side filter in the words of the specification\<close>

text \<open>
  Point features by inclusion in the rectangle, line features by
  \<open>lineIntersectsRectangle\<close>, polygon features by \<open>polygonIntersectsRectangle\<close> on the outer
  ring (the first ring of a polygon).
\<close>

definition spec_polygonFilter :: "bounds \<Rightarrow> position list list \<Rightarrow> bool" where
  "spec_polygonFilter b rings =
     (case rings of [] \<Rightarrow> False | outer # holes \<Rightarrow> polygonIntersectsRectangle (map xy outer) b)"

definition spec_clientFilter :: "bounds \<Rightarrow> feature \<Rightarrow> bool" where
  "spec_clientFilter b f =
     (case geometry f of
        None \<Rightarrow> False
      | Some (Point p) \<Rightarrow> pointInRectangle (xy p) (rect_of b)
      | Some (LineString line) \<Rightarrow> lineIntersectsRectangle (map xy line) b
      | Some (MultiLineString lines) \<Rightarrow> list_ex (\<lambda>line. lineIntersectsRectangle (map xy line) b) lines
      | Some (Polygon rings) \<Rightarrow> spec_polygonFilter b rings
      | Some (MultiPolygon polygons) \<Rightarrow> list_ex (spec_polygonFilter b) polygons
      | Some OtherGeometry \<Rightarrow> False)"

text \<open>
  The wider test that the fallback fetch applies, in the same words: a line also passes
  when the bounding box of its coordinates overlaps the rectangle, a polygon also when a
  vertex of its outer ring lies in the rectangle.
\<close>

definition coordinateBoxOverlaps :: "bounds \<Rightarrow> position list \<Rightarrow> bool" where
  "coordinateBoxOverlaps b line =
     (line \<noteq> [] \<and> Min (fst ` set line) \<le> getEast b \<and> Max (fst ` set line) \<ge> getWest b \<and>
      Min (snd ` set line) \<le> getNorth b \<and> Max (snd ` set line) \<ge> getSouth b)"

definition wide_lineFilter :: "bounds \<Rightarrow> position list \<Rightarrow> bool" where
  "wide_lineFilter b line =
     (lineIntersectsRectangle (map xy line) b \<or> coordinateBoxOverlaps b line)"

definition wide_polygonFilter :: "bounds \<Rightarrow> position list list \<Rightarrow> bool" where
  "wide_polygonFilter b rings =
     (case rings of
        [] \<Rightarrow> False
      | outer # holes \<Rightarrow>
          polygonIntersectsRectangle (map xy outer) b \<or>
          list_ex (\<lambda>p. pointInRectangle (xy p) (rect_of b)) outer)"

definition wide_clientFilter :: "bounds \<Rightarrow> feature \<Rightarrow> bool" where
  "wide_clientFilter b f =
     (case geometry f of
        None \<Rightarrow> False
      | Some (Point p) \<Rightarrow> pointInRectangle (xy p) (rect_of b)
      | Some (LineString line) \<Rightarrow> wide_lineFilter b line
      | Some (MultiLineString lines) \<Rightarrow> list_ex (wide_lineFilter b) lines
      | Some (Polygon rings) \<Rightarrow> wide_polygonFilter b rings
      | Some (MultiPolygon polygons) \<Rightarrow> list_ex (wide_polygonFilter b) polygons
      | Some OtherGeometry \<Rightarrow> False)"

text \<open>When an attempt counts as failed: the request is rejected (network error, time-out),
  the response has an error status, or its body cannot be parsed. The fallback fetch does
  not look at the status, so an error status counts there when the body carries no
  features.\<close>

definition primaryAttemptFails :: "http \<Rightarrow> bool" where
  "primaryAttemptFails r =
     (case r of Rejected \<Rightarrow> True | Response ok data \<Rightarrow> \<not> ok \<or> data = Unparsable)"




section \<open>Concrete inputs\<close>

definition unit_box :: bounds where
  "unit_box = \<lparr> getWest = 0, getSouth = 0, getEast = 10, getNorth = 10 \<rparr>"

definition inverted_box :: bounds where
  "inverted_box = \<lparr> getWest = 10, getSouth = 20, getEast = 0, getNorth = -20 \<rparr>"


definition far_point :: feature where
  "far_point = \<lparr> geometry = Some (Point (50, 50)), properties = [], layerName = None \<rparr>"

definition near_point :: feature where
  "near_point = \<lparr> geometry = Some (Point (5, 5)), properties = [], layerName = None \<rparr>"

definition bridges_layer :: layer where
  "bridges_layer =
     \<lparr> name = ''bridges'',
       url = ''https://gis.dot.state.oh.us/arcgis/rest/services/TIMS/Assets/MapServer/5'',
       visible = True \<rparr>"

definition roads_layer :: layer where
  "roads_layer =
     \<lparr> name = ''roads'',
       url = ''https://gis.dot.state.oh.us/arcgis/rest/services/TIMS/Roadway_Information/MapServer/8'',
       visible = True \<rparr>"

definition bridges_only :: layerStates where
  "bridges_only = \<lparr> bridges = True, conduits = False, roads = False, boundaries = False \<rparr>"

definition bridges_and_roads :: layerStates where
  "bridges_and_roads = \<lparr> bridges = True, conduits = False, roads = True, boundaries = False \<rparr>"

text \<open>A network whose native query answers every layer with one point at (50, 50).\<close>

definition native_far_net :: network where
  "native_far_net =
     \<lparr> fetch = (\<lambda>u q. Rejected), run = (\<lambda>u n b. FeatureCollection (Some [far_point])) \<rparr>"

text \<open>A network on which every request fails.\<close>

definition dead_net :: network where
  "dead_net = \<lparr> fetch = (\<lambda>u q. Rejected), run = (\<lambda>u n b. EsriError) \<rparr>"

text \<open>A network on which the bridges service is down and the roads service answers the
  native query with the point (5, 5).\<close>

definition bridges_down_net :: network where
  "bridges_down_net =
     \<lparr> fetch = (\<lambda>u q. Rejected),
       run = (\<lambda>u n b. if u = url roads_layer then FeatureCollection (Some [near_point])
                        else EsriError) \<rparr>"

text \<open>A network whose native query finds nothing and whose first fetch returns the points
  (5, 5) and (50, 50).\<close>

definition fetch_net :: network where
  "fetch_net =
     \<lparr> fetch = (\<lambda>u q. Response True (Parsed (Some [near_point, far_point]))),
       run = (\<lambda>u n b. FeatureCollection None) \<rparr>"

section \<open>The measurement tool\<close>

text \<open>\<^verbatim>\<open>L.LatLng\<close>.\<close>

record latlng =
  lat :: real
  lng :: real

record distance =
  miles :: real
  feet :: real

record area =
  acres :: real
  sqMiles :: real

text \<open>\<open>calculateDistance\<close>; \<open>distanceTo\<close> is Leaflet's \<^verbatim>\<open>LatLng.distanceTo\<close>, in metres.\<close>

fun totalDistance :: "(latlng \<Rightarrow> latlng \<Rightarrow> real) \<Rightarrow> latlng list \<Rightarrow> real \<Rightarrow> real" where
  "totalDistance distanceTo (p # q # ps) acc =
     totalDistance distanceTo (q # ps) (acc + distanceTo p q)"
| "totalDistance distanceTo _ acc = acc"

definition calculateDistance :: "(latlng \<Rightarrow> latlng \<Rightarrow> real) \<Rightarrow> latlng list \<Rightarrow> distance" where
  "calculateDistance distanceTo points =
     (if length points < 2 then \<lparr> miles = 0, feet = 0 \<rparr>
      else (let metres = totalDistance distanceTo points 0
            in \<lparr> miles = metres * 0.000621371, feet = metres * 3.28084 \<rparr>))"

text \<open>The body of the loop of \<open>calculateArea\<close> at index \<open>i\<close>; both indices are below the
  length of \<open>points\<close>, which is at least 3 where the loop runs.\<close>

definition areaStep :: "latlng list \<Rightarrow> nat \<Rightarrow> real \<Rightarrow> real" where
  "areaStep points i area =
     (let j = (i + 1) mod length points
      in area + lng (points ! i) * lat (points ! j) - lng (points ! j) * lat (points ! i))"

definition calculateArea :: "latlng list \<Rightarrow> area" where
  "calculateArea points =
     (if length points < 3 then \<lparr> acres = 0, sqMiles = 0 \<rparr>
      else (let n = length points;
                area = fold (areaStep points) [0..<n] 0;
                area = \<bar>area\<bar> / 2;
                earthRadius = 6371000;
                areaInSqMeters = area * (pi / 180) * (pi / 180) * earthRadius * earthRadius
            in \<lparr> acres = areaInSqMeters * 0.000247105,
                 sqMiles = areaInSqMeters * 0.000000386102 \<rparr>))"




datatype measureMode = LineMode | AreaMode

text \<open>
  The texts given to \<^verbatim>\<open>setMessage\<close>. Fixed texts are strings (UTF-8 bytes); a text with
  formatted numbers in it is a constructor holding the numbers.
\<close>

datatype message =
    Text string
  | MeasureStarted measureMode
  | LineRunning real real nat
  | AreaRunning real real nat
  | LineComplete real real nat
  | AreaComplete real real nat

definition ruler :: string where
  "ruler = [CHR 0xF0, CHR 0x9F, CHR 0x93, CHR 0x8F]"

definition triangleRuler :: string where
  "triangleRuler = [CHR 0xF0, CHR 0x9F, CHR 0x93, CHR 0x90]"

definition crossMark :: string where
  "crossMark = [CHR 0xE2, CHR 0x9D, CHR 0x8C]"

text \<open>
  The state of \<open>useMeasureTool\<close>: the React state \<open>isMeasuring\<close> and \<open>measureMode\<close>, the refs,
  what is drawn in the measure layer, and the last message.
\<close>

record measureTool =
  isMeasuring :: bool
  measureMode :: measureMode
  isMeasuringRef :: bool
  isDoubleClickingRef :: bool
  measurePointsRef :: "latlng list"
  markers :: "latlng list"
  measureLineRef :: "latlng list option"
  measurePolygonRef :: "latlng list option"
  message :: message

definition startMeasuring :: "measureMode \<Rightarrow> measureTool \<Rightarrow> measureTool" where
  "startMeasuring mode s =
     s\<lparr> isMeasuring := True, measureMode := mode, isMeasuringRef := True,
        isDoubleClickingRef := False, measurePointsRef := [],
        message := MeasureStarted mode \<rparr>"

definition stopMeasuring :: "measureTool \<Rightarrow> measureTool" where
  "stopMeasuring s =
     s\<lparr> isMeasuring := False, isMeasuringRef := False, isDoubleClickingRef := False,
        measurePointsRef := [], measureLineRef := None, measurePolygonRef := None,
        message := Text ''Measure Tool: Stopped'' \<rparr>"

definition clearMeasurements :: "measureTool \<Rightarrow> measureTool" where
  "clearMeasurements s =
     s\<lparr> markers := [], measurePointsRef := [], measureLineRef := None,
        measurePolygonRef := None, isDoubleClickingRef := False,
        message := Text ''All measurements cleared'' \<rparr>"

definition handleMapClick ::
  "(latlng \<Rightarrow> latlng \<Rightarrow> real) \<Rightarrow> latlng \<Rightarrow> measureTool \<Rightarrow> measureTool" where
  "handleMapClick distanceTo point s =
     (if \<not> isMeasuringRef s \<or> isDoubleClickingRef s then s
      else
        (let points = measurePointsRef s @ [point];
             s = s\<lparr> measurePointsRef := points, markers := markers s @ [point] \<rparr>
         in if measureMode s = LineMode then
              (let s = (if length points > 1 then s\<lparr> measureLineRef := Some points \<rparr> else s)
               in if length points > 1 then
                    (let d = calculateDistance distanceTo points
                     in s\<lparr> message := LineRunning (miles d) (feet d) (length points) \<rparr>)
                  else if length points = 1 then
                    s\<lparr> message := Text (ruler @
                      '' Line Measure: Click to add more vertices, double-click to finish'') \<rparr>
                  else s)
            else
              (if length points > 2 then
                 (let a = calculateArea points
                  in s\<lparr> measurePolygonRef := Some points,
                        message := AreaRunning (acres a) (sqMiles a) (length points) \<rparr>)
               else if length points = 1 then
                 s\<lparr> message := Text (triangleRuler @
                   '' Area Measure: Click to add more vertices, double-click to finish'') \<rparr>
               else if length points = 2 then
                 s\<lparr> message := Text (triangleRuler @
                   '' Area Measure: Need at least 3 points for area calculation'') \<rparr>
               else s)))"

definition handleMapDoubleClick ::
  "(latlng \<Rightarrow> latlng \<Rightarrow> real) \<Rightarrow> measureTool \<Rightarrow> measureTool" where
  "handleMapDoubleClick distanceTo s =
     (if \<not> isMeasuringRef s then s
      else
        (let s = s\<lparr> isDoubleClickingRef := True \<rparr>;
             points = measurePointsRef s;
             s = (if measureMode s = LineMode then
                    (if length points > 1 then
                       (let d = calculateDistance distanceTo points
                        in s\<lparr> message := LineComplete (miles d) (feet d) (length points) \<rparr>)
                     else s\<lparr> message := Text (crossMark @
                            '' Line measurement requires at least 2 points'') \<rparr>)
                  else
                    (if length points > 2 then
                       (let a = calculateArea points
                        in s\<lparr> message := AreaComplete (acres a) (sqMiles a) (length points) \<rparr>)
                     else s\<lparr> message := Text (crossMark @
                            '' Area measurement requires at least 3 points'') \<rparr>))
         in s\<lparr> isMeasuring := False, isMeasuringRef := False \<rparr>))"

text \<open>The timer that \<open>handleMapDoubleClick\<close> sets, firing after 100 ms.\<close>

definition doubleClickTimeout :: "measureTool \<Rightarrow> measureTool" where
  "doubleClickTimeout s = s\<lparr> isDoubleClickingRef := False \<rparr>"

text \<open>The tool as \<open>useMeasureTool\<close> creates it.\<close>

definition initialMeasureTool :: measureTool where
  "initialMeasureTool =
     \<lparr> isMeasuring = False, measureMode = LineMode, isMeasuringRef = False,
       isDoubleClickingRef = False, measurePointsRef = [], markers = [],
       measureLineRef = None, measurePolygonRef = None, message = Text [] \<rparr>"

text \<open>The number of vertices a mode needs before a value is reported.\<close>

definition requiredPoints :: "measureMode \<Rightarrow> nat" where
  "requiredPoints mode = (case mode of LineMode \<Rightarrow> 2 | AreaMode \<Rightarrow> 3)"

definition flatDistance :: "latlng \<Rightarrow> latlng \<Rightarrow> real" where
  "flatDistance p q = \<bar>lat p - lat q\<bar> + \<bar>lng p - lng q\<bar>"

definition one_vertex_line :: measureTool where
  "one_vertex_line =
     handleMapClick flatDistance \<lparr> lat = 40, lng = -83 \<rparr>
       (startMeasuring LineMode initialMeasureTool)"

section \<open>The Draw-Select tool\<close>

text \<open>The rectangle overlay that \<open>rectangleRef\<close> holds: its bounds, whether it is on the map,
  and whether it has the style of a finished selection.\<close>

record rectangle =
  rectBounds :: bounds
  onMap :: bool
  selectionStyle :: bool

text \<open>\<^verbatim>\<open>L.latLngBounds(a, b)\<close>: the smallest box holding both corners.\<close>

definition latLngBounds :: "latlng \<Rightarrow> latlng \<Rightarrow> bounds" where
  "latLngBounds a b =
     \<lparr> getWest = min (lng a) (lng b), getSouth = min (lat a) (lat b),
       getEast = max (lng a) (lng b), getNorth = max (lat a) (lat b) \<rparr>"

text \<open>
  The state of \<open>useDrawTool\<close>: the React state \<open>isDrawing\<close>; the variables
  \<open>isCurrentlyDrawing\<close> and \<open>wasDraggingEnabled\<close> local to the effect that registers the
  mouse handlers; the refs; of the map, whether dragging is enabled and the cursor; and
  the bounds with which \<open>queryFeaturesInBounds\<close> has been called.
\<close>

record drawTool =
  isDrawing :: bool
  isCurrentlyDrawing :: bool
  wasDraggingEnabled :: bool
  startPointRef :: "latlng option"
  rectangleRef :: "rectangle option"
  draggingEnabled :: bool
  cursor :: string
  queries :: "bounds list"

definition removeRectangle :: "drawTool \<Rightarrow> drawTool" where
  "removeRectangle s =
     s\<lparr> rectangleRef := map_option (\<lambda>r. r\<lparr> onMap := False \<rparr>) (rectangleRef s) \<rparr>"

text \<open>
  The effect depends on \<open>isDrawing\<close>: when a handler has changed it, React renders again,
  runs the effect's clean-up (which removes the rectangle and resets the cursor) and then
  the effect itself, whose local variables start afresh. \<open>before\<close> is the value of
  \<open>isDrawing\<close> when the handler started.
\<close>

definition rerender :: "bool \<Rightarrow> drawTool \<Rightarrow> drawTool" where
  "rerender before s =
     (if isDrawing s = before then s
      else (removeRectangle s)\<lparr> cursor := [], isCurrentlyDrawing := False,
                                  wasDraggingEnabled := True \<rparr>)"

definition startDrawing :: "drawTool \<Rightarrow> drawTool" where
  "startDrawing s = rerender (isDrawing s) (s\<lparr> isDrawing := True \<rparr>)"

definition stopDrawing :: "drawTool \<Rightarrow> drawTool" where
  "stopDrawing s =
     rerender (isDrawing s) ((removeRectangle (s\<lparr> isDrawing := False \<rparr>))\<lparr> cursor := [] \<rparr>)"

definition onMouseDown :: "latlng \<Rightarrow> drawTool \<Rightarrow> drawTool" where
  "onMouseDown e s =
     (if \<not> isDrawing s then s
      else s\<lparr> isCurrentlyDrawing := True,
              startPointRef := Some e,
              wasDraggingEnabled := draggingEnabled s,
              draggingEnabled := False,
              cursor := ''crosshair'',
              rectangleRef := Some \<lparr> rectBounds = latLngBounds e e, onMap = True,
                                      selectionStyle = False \<rparr> \<rparr>)"

definition onMouseMove :: "latlng \<Rightarrow> drawTool \<Rightarrow> drawTool" where
  "onMouseMove e s =
     (case startPointRef s of
        None \<Rightarrow> s
      | Some start \<Rightarrow>
          if \<not> isCurrentlyDrawing s then s
          else s\<lparr> rectangleRef :=
                    map_option (\<lambda>r. r\<lparr> rectBounds := latLngBounds start e \<rparr>) (rectangleRef s) \<rparr>)"

text \<open>\<open>onMouseUp\<close>; \<open>toPixel\<close> is \<^verbatim>\<open>map.latLngToContainerPoint\<close>.\<close>

definition onMouseUp :: "(latlng \<Rightarrow> real \<times> real) \<Rightarrow> latlng \<Rightarrow> drawTool \<Rightarrow> drawTool" where
  "onMouseUp toPixel e s =
     (case startPointRef s of
        None \<Rightarrow> s
      | Some start \<Rightarrow>
          if \<not> isCurrentlyDrawing s then s
          else
            (let before = isDrawing s;
                 s = s\<lparr> isCurrentlyDrawing := False \<rparr>;
                 endPoint = e;
                 b = latLngBounds start endPoint;
                 startPixel = toPixel start;
                 endPixel = toPixel endPoint;
                 width = \<bar>fst endPixel - fst startPixel\<bar>;
                 height = \<bar>snd endPixel - snd startPixel\<bar>
             in if width < 10 \<or> height < 10 then
                  (let s = removeRectangle s;
                       s = s\<lparr> cursor := [] \<rparr>;
                       s = (if wasDraggingEnabled s then s\<lparr> draggingEnabled := True \<rparr> else s)
                   in rerender before (s\<lparr> isDrawing := False \<rparr>))
                else
                  (let s = s\<lparr> queries := queries s @ [b] \<rparr>;
                       s = s\<lparr> rectangleRef :=
                                map_option (\<lambda>r. r\<lparr> selectionStyle := True \<rparr>) (rectangleRef s) \<rparr>;
                       s = s\<lparr> cursor := [] \<rparr>;
                       s = (if wasDraggingEnabled s then s\<lparr> draggingEnabled := True \<rparr> else s)
                   in rerender before (s\<lparr> isDrawing := False \<rparr>))))"

text \<open>The timer of the successful path, 5 s later.\<close>

definition selectionTimeout :: "drawTool \<Rightarrow> drawTool" where
  "selectionTimeout s = removeRectangle s"

text \<open>The tool as \<open>useDrawTool\<close> creates it on a map whose dragging is enabled.\<close>

definition initialDrawTool :: drawTool where
  "initialDrawTool =
     \<lparr> isDrawing = False, isCurrentlyDrawing = False, wasDraggingEnabled = True,
       startPointRef = None, rectangleRef = None, draggingEnabled = True, cursor = [],
       queries = [] \<rparr>"

text \<open>A projection that shows one degree as 100 pixels.\<close>

definition hundredPixelsPerDegree :: "latlng \<Rightarrow> real \<times> real" where
  "hundredPixelsPerDegree p = (100 * lng p, - 100 * lat p)"

definition dragging_tool :: drawTool where
  "dragging_tool = onMouseDown \<lparr> lat = 40, lng = -83 \<rparr> (startDrawing initialDrawTool)"

section \<open>Paged loading with the query cache\<close>

text \<open>The result of one page, and an entry of \<open>queryCache\<close>; times are milliseconds as
  \<^verbatim>\<open>Date.now()\<close> gives them.\<close>

record pageResult =
  pageFeatures :: "feature list"
  totalCount :: nat
  hasMore :: bool

record cacheEntry =
  data :: pageResult
  timestamp :: int
  expiresAt :: int

type_synonym queryCache = "string \<rightharpoonup> cacheEntry"


text \<open>\<open>setCachedQuery\<close> reads the clock twice, for \<open>timestamp\<close> and for \<open>expiresAt\<close>.\<close>

definition setCachedQuery ::
  "queryCache \<Rightarrow> string \<Rightarrow> pageResult \<Rightarrow> int \<Rightarrow> int \<Rightarrow> queryCache" where
  "setCachedQuery queryCache cacheKey d now1 now2 =
     queryCache(cacheKey \<mapsto> \<lparr> data = d, timestamp = now1, expiresAt = now2 + (5 * 60 * 1000) \<rparr>)"

definition isCacheValid :: "queryCache \<Rightarrow> string \<Rightarrow> int \<Rightarrow> bool" where
  "isCacheValid queryCache cacheKey now =
     (case queryCache cacheKey of None \<Rightarrow> False | Some cached \<Rightarrow> now < expiresAt cached)"

text \<open>A page or limit number as a template literal prints it: in decimal.\<close>

definition digitChar :: "nat \<Rightarrow> char" where
  "digitChar d = ''0123456789'' ! d"

fun decimal :: "nat \<Rightarrow> string" where
  "decimal n = (if 10 \<le> n then decimal (n div 10) @ [digitChar (n mod 10)] else [digitChar n])"

text \<open>The requests of \<open>loadFeaturesWithProgress\<close>: the count query
  \<^verbatim>\<open>layer.query().within(bounds).limit(1)\<close> and the page query with limit and offset.\<close>

datatype pagedRequest =
    CountQuery string bounds
  | PageQuery string bounds nat int

datatype pagedAnswer = QueryFailed | Collection "feature list option" "nat option"

text \<open>
  What surrounds a call: \<^verbatim>\<open>JSON.stringify\<close> on bounds, the answers of the layer's query
  service, the clock as read by \<open>isCacheValid\<close> and then twice by \<open>setCachedQuery\<close>, and the
  \<open>queryCache\<close> and \<open>loadingProgress\<close> that the component holds when it is called.
\<close>

record surroundings =
  stringify :: "bounds \<Rightarrow> string"
  answer :: "pagedRequest \<Rightarrow> pagedAnswer"
  nowAtCheck :: int
  nowAtStore1 :: int
  nowAtStore2 :: int
  queryCache :: queryCache
  loadingProgress :: nat

record loaded =
  promise :: "js_error + pageResult"
  cacheAfter :: queryCache
  progressAfter :: nat
  pagedRequests :: "pagedRequest list"

definition cacheKeyOf :: "surroundings \<Rightarrow> layer \<Rightarrow> bounds \<Rightarrow> nat \<Rightarrow> nat \<Rightarrow> string" where
  "cacheKeyOf w l b page limit =
     name l @ ''_'' @ stringify w b @ ''_'' @ decimal page @ ''_'' @ decimal limit"


text \<open>A later call, at time \<open>t\<close>, by a component that holds the cache an earlier call left.\<close>

definition laterCall :: "surroundings \<Rightarrow> loaded \<Rightarrow> int \<Rightarrow> surroundings" where
  "laterCall w r t = w\<lparr> queryCache := cacheAfter r, nowAtCheck := t,
                       loadingProgress := progressAfter r \<rparr>"

text \<open>A service that reports three features and returns one per page, asked at time 1000
  by a component with an empty cache; the answer is stored at time 1200.\<close>

definition first_call :: surroundings where
  "first_call =
     \<lparr> stringify = (\<lambda>b. ''{}''),
       answer = (\<lambda>q. Collection (Some [near_point]) (Some 3)),
       nowAtCheck = 1000, nowAtStore1 = 1200, nowAtStore2 = 1200,
       queryCache = Map.empty, loadingProgress = 0 \<rparr>"

section \<open>Properties of the geometry helpers\<close>

lemma ring_xy_NaN: "ring_xy r = (None, None)"
proof (cases r)
  case Nil
  then show ?thesis by (simp add: ring_xy_def elem_xy_def js_ring_def elem_at_def)
next
  case (Cons p ps)
  then show ?thesis
    by (cases ps) (simp_all add: ring_xy_def elem_xy_def js_ring_def js_position_def elem_at_def)
qed

lemma xy_eq: "xy p = (Some (fst p), Some (snd p))"
  by (simp add: xy_def elem_xy_def js_position_def elem_at_def)

lemma withinBounds_xy:
  "withinBounds b (xy p) =
     (getWest b \<le> fst p \<and> fst p \<le> getEast b \<and> getSouth b \<le> snd p \<and> snd p \<le> getNorth b)"
  by (simp add: xy_eq)

lemma pointInRectangle_xy:
  "pointInRectangle (xy p) (rect_of b) = withinBounds b (xy p)"
  by (simp add: xy_eq rect_of_def)

lemma mathMin_Min: "mathMin x xs = Min (set (x # xs))"
  unfolding mathMin_def by (rule Min.set_eq_fold [symmetric])

lemma mathMax_Max: "mathMax x xs = Max (set (x # xs))"
  unfolding mathMax_def by (rule Max.set_eq_fold [symmetric])

lemma boundingBoxOverlaps_iff:
  "boundingBoxOverlaps b line =
     (line \<noteq> [] \<and> Min (fst ` set line) \<le> getEast b \<and> Max (fst ` set line) \<ge> getWest b \<and>
      Min (snd ` set line) \<le> getNorth b \<and> Max (snd ` set line) \<ge> getSouth b)"
proof (cases line)
  case Nil
  then show ?thesis by (simp add: boundingBoxOverlaps_def lineBoundingBox_def)
next
  case (Cons p ps)
  have "mathMin (fst p) (map fst ps) = Min (fst ` set line)"
    and "mathMax (fst p) (map fst ps) = Max (fst ` set line)"
    and "mathMin (snd p) (map snd ps) = Min (snd ` set line)"
    and "mathMax (snd p) (map snd ps) = Max (snd ` set line)"
    using Cons by (simp_all add: mathMin_Min mathMax_Max)
  then show ?thesis
    using Cons by (simp add: boundingBoxOverlaps_def lineBoundingBox_def)
qed

section \<open>C10: the fallback filter accepts a line on bounding-box overlap alone\<close>

lemma fallbackLine_of_overlap:
  "boundingBoxOverlaps b line \<Longrightarrow> fallbackLineInBounds b line"
  by (simp add: fallbackLineInBounds_def)

lemma fallbackLine_of_primaryLine:
  "primaryLineInBounds b line \<Longrightarrow> fallbackLineInBounds b line"
  by (auto simp add: fallbackLineInBounds_def primaryLineInBounds_def Let_def)

lemma primaryLine_iff_lineIntersectsRectangle:
  "primaryLineInBounds b line = lineIntersectsRectangle (map xy line) b"
  by (auto simp add: primaryLineInBounds_def lineIntersectsRectangle_def Let_def list_ex_iff
      pointInRectangle_xy)

lemma far_line_overlaps:
  "boundingBoxOverlaps \<lparr> getWest = 0, getSouth = 0, getEast = 10, getNorth = 10 \<rparr> [(-5, 8), (8, 20)]"
  by (simp add: boundingBoxOverlaps_def lineBoundingBox_def mathMin_def mathMax_def)

lemma far_line_no_segment:
  "\<not> anySegmentIntersects (map xy [(-5, 8), (8, 20)])
        (rect_of \<lparr> getWest = 0, getSouth = 0, getEast = 10, getNorth = 10 \<rparr>)"
  by (simp add: xy_eq rect_of_def lineSegmentIntersectsRectangle_def
      edges_def lineSegmentsIntersect_def)

lemma far_line_not_intersecting:
  "\<not> lineIntersectsRectangle (map xy [(-5, 8), (8, 20)])
        \<lparr> getWest = 0, getSouth = 0, getEast = 10, getNorth = 10 \<rparr>"
  using far_line_no_segment
  by (simp add: lineIntersectsRectangle_def Let_def xy_eq rect_of_def)

text \<open>
  C10. In the filter of the fallback fetch, a LineString feature is accepted whenever the
  axis-aligned bounding box of its coordinates overlaps the selection rectangle, and a
  MultiLineString feature whenever the bounding box of one of its lines does. Whatever
  \<open>lineIntersectsRectangle\<close> (the test of the first fetch) accepts, the fallback accepts
  too; and there is a line that the fallback accepts although none of its vertices lies
  in the rectangle and none of its segments crosses a rectangle edge, so that
  \<open>lineIntersectsRectangle\<close> and the filter of the first fetch reject it.
\<close>

theorem fallback_line_filter_accepts_box_overlap:
  "(geometry f = Some (LineString line) \<and> line \<noteq> [] \<and>
      Min (fst ` set line) \<le> getEast b \<and> Max (fst ` set line) \<ge> getWest b \<and>
      Min (snd ` set line) \<le> getNorth b \<and> Max (snd ` set line) \<ge> getSouth b
      \<longrightarrow> fallbackInBounds b f = Inr True)
   \<and> (geometry f = Some (MultiLineString lines) \<and> line \<in> set lines \<and> line \<noteq> [] \<and>
      Min (fst ` set line) \<le> getEast b \<and> Max (fst ` set line) \<ge> getWest b \<and>
      Min (snd ` set line) \<le> getNorth b \<and> Max (snd ` set line) \<ge> getSouth b
      \<longrightarrow> fallbackInBounds b f = Inr True)
   \<and> (geometry f = Some (LineString line) \<and> lineIntersectsRectangle (map xy line) b
      \<longrightarrow> primaryInBounds b f \<and> fallbackInBounds b f = Inr True)
   \<and> (\<exists>g r l. geometry g = Some (LineString l) \<and> fallbackInBounds r g = Inr True \<and>
        (\<forall>p \<in> set l. \<not> pointInRectangle (xy p) (rect_of r)) \<and>
        \<not> anySegmentIntersects (map xy l) (rect_of r) \<and>
        \<not> lineIntersectsRectangle (map xy l) r \<and> \<not> primaryInBounds r g)"
proof (intro conjI impI)
  assume "geometry f = Some (LineString line) \<and> line \<noteq> [] \<and>
      Min (fst ` set line) \<le> getEast b \<and> Max (fst ` set line) \<ge> getWest b \<and>
      Min (snd ` set line) \<le> getNorth b \<and> Max (snd ` set line) \<ge> getSouth b"
  then have "geometry f = Some (LineString line)" and "boundingBoxOverlaps b line"
    by (simp_all add: boundingBoxOverlaps_iff)
  then show "fallbackInBounds b f = Inr True"
    by (simp add: fallbackInBounds_def fallbackLine_of_overlap)
next
  assume "geometry f = Some (MultiLineString lines) \<and> line \<in> set lines \<and> line \<noteq> [] \<and>
      Min (fst ` set line) \<le> getEast b \<and> Max (fst ` set line) \<ge> getWest b \<and>
      Min (snd ` set line) \<le> getNorth b \<and> Max (snd ` set line) \<ge> getSouth b"
  then have g: "geometry f = Some (MultiLineString lines)" and "line \<in> set lines"
    and "boundingBoxOverlaps b line"
    by (simp_all add: boundingBoxOverlaps_iff)
  then have "list_ex (fallbackLineInBounds b) lines"
    unfolding list_ex_iff using fallbackLine_of_overlap by blast
  with g show "fallbackInBounds b f = Inr True"
    by (simp add: fallbackInBounds_def)
next
  assume a: "geometry f = Some (LineString line) \<and> lineIntersectsRectangle (map xy line) b"
  then have p: "primaryLineInBounds b line"
    by (simp add: primaryLine_iff_lineIntersectsRectangle)
  with a show "primaryInBounds b f"
    by (simp add: primaryInBounds_def)
  from a p show "fallbackInBounds b f = Inr True"
    by (simp add: fallbackInBounds_def fallbackLine_of_primaryLine)
next
  let ?l = "[(-5, 8), (8, 20)] :: position list"
  let ?r = "\<lparr> getWest = 0, getSouth = 0, getEast = 10, getNorth = 10 \<rparr>"
  let ?g = "\<lparr> geometry = Some (LineString ?l), properties = [], layerName = None \<rparr>"
  have "geometry ?g = Some (LineString ?l)" by simp
  moreover have "fallbackInBounds ?r ?g = Inr True"
    using far_line_overlaps by (simp add: fallbackInBounds_def fallbackLine_of_overlap)
  moreover have "\<forall>p \<in> set ?l. \<not> pointInRectangle (xy p) (rect_of ?r)"
    by (simp add: xy_eq rect_of_def)
  moreover note far_line_no_segment far_line_not_intersecting
  moreover have "\<not> primaryInBounds ?r ?g"
    using far_line_not_intersecting
    by (simp add: primaryInBounds_def primaryLine_iff_lineIntersectsRectangle)
  ultimately show "\<exists>g r l. geometry g = Some (LineString l) \<and> fallbackInBounds r g = Inr True \<and>
        (\<forall>p \<in> set l. \<not> pointInRectangle (xy p) (rect_of r)) \<and>
        \<not> anySegmentIntersects (map xy l) (rect_of r) \<and>
        \<not> lineIntersectsRectangle (map xy l) r \<and> \<not> primaryInBounds r g"
    by blast
qed

theorem fallback_line_filter_accepts_box_overlap_witness:
  "fallbackInBounds \<lparr> getWest = 0, getSouth = 0, getEast = 10, getNorth = 10 \<rparr>
     \<lparr> geometry = Some (LineString [(-5, 8), (8, 20)]), properties = [], layerName = None \<rparr>
   = Inr True
   \<and> fallbackInBounds \<lparr> getWest = 0, getSouth = 0, getEast = 10, getNorth = 10 \<rparr>
     \<lparr> geometry = Some (MultiLineString [[(50, 50)], [(-5, 8), (8, 20)]]), properties = [], layerName = None \<rparr>
   = Inr True
   \<and> primaryInBounds \<lparr> getWest = 0, getSouth = 0, getEast = 10, getNorth = 10 \<rparr>
     \<lparr> geometry = Some (LineString [(-5, 5), (5, 5)]), properties = [], layerName = None \<rparr>"
proof -
  let ?r = "\<lparr> getWest = 0, getSouth = 0, getEast = 10, getNorth = 10 \<rparr>"
  let ?l = "[(-5, 8), (8, 20)] :: position list"
  have 1: "fallbackInBounds ?r \<lparr> geometry = Some (LineString ?l), properties = [], layerName = None \<rparr> = Inr True"
    using fallback_line_filter_accepts_box_overlap
      [of "\<lparr> geometry = Some (LineString ?l), properties = [], layerName = None \<rparr>" ?l ?r]
    by simp
  have 2: "fallbackInBounds ?r \<lparr> geometry = Some (MultiLineString [[(50, 50)], ?l]), properties = [], layerName = None \<rparr> = Inr True"
    using fallback_line_filter_accepts_box_overlap
      [of "\<lparr> geometry = Some (MultiLineString [[(50, 50)], ?l]), properties = [], layerName = None \<rparr>" ?l ?r
          "[[(50, 50)], ?l]"]
    by simp
  have "lineIntersectsRectangle (map xy [(-5, 5), (5, 5)]) ?r"
    by (simp add: lineIntersectsRectangle_def Let_def xy_eq rect_of_def)
  then have 3: "primaryInBounds ?r \<lparr> geometry = Some (LineString [(-5, 5), (5, 5)]), properties = [], layerName = None \<rparr>"
    using fallback_line_filter_accepts_box_overlap
      [of "\<lparr> geometry = Some (LineString [(-5, 5), (5, 5)]), properties = [], layerName = None \<rparr>"
          "[(-5, 5), (5, 5)]" ?r]
    by simp
  from 1 2 3 show ?thesis by simp
qed

section \<open>The first fetch never accepts a polygon; what the filters accept\<close>

lemma segment_NaN: "\<not> lineSegmentIntersectsRectangle (None, None) (None, None) r"
  by (simp add: lineSegmentIntersectsRectangle_def lineSegmentsIntersect_def edges_def)

lemma anySegment_NaN: "\<forall>p \<in> set ps. p = (None, None) \<Longrightarrow> \<not> anySegmentIntersects ps r"
proof (induction ps r rule: anySegmentIntersects.induct)
  case (1 p1 p2 ps r)
  then show ?case by (simp add: segment_NaN)
qed simp_all

lemma loop_NaN:
  "\<forall>p \<in> set ps. p = (None, None) \<Longrightarrow>
   pointInPolygon_loop (Some x, Some y) (None, None) ps inside = inside"
  by (induction ps arbitrary: inside) simp_all

lemma pointInPolygon_NaN:
  "\<forall>p \<in> set ps. p = (None, None) \<Longrightarrow> \<not> pointInPolygon (Some x, Some y) ps"
proof (cases ps)
  case Nil
  then show ?thesis by (simp add: pointInPolygon_def)
next
  case (Cons p qs)
  assume a: "\<forall>p \<in> set ps. p = (None, None)"
  have "last ps \<in> set ps" using Cons by simp
  with a have "last ps = (None, None)" by blast
  with a Cons show ?thesis
    by (simp add: pointInPolygon_def loop_NaN)
qed

lemma polygon_NaN:
  assumes "\<forall>p \<in> set ps. p = (None, None)"
  shows "\<not> polygonIntersectsRectangle ps b"
  using assms
  by (simp add: polygonIntersectsRectangle_def Let_def anySegment_NaN rectCorners_def
      pointInPolygon_NaN)

lemma primaryPolygonInBounds_never: "\<not> primaryPolygonInBounds b polygon"
proof -
  have n: "\<forall>p \<in> set (map ring_xy polygon). p = (None, None)"
    by (simp add: ring_xy_NaN)
  then have "\<not> polygonIntersectsRectangle (map ring_xy polygon) b"
    by (rule polygon_NaN)
  moreover have "\<not> list_ex (withinBounds b) (map ring_xy polygon)"
    by (simp add: list_ex_iff ring_xy_NaN)
  ultimately show ?thesis
    by (simp add: primaryPolygonInBounds_def)
qed

lemma primaryInBounds_spec: "primaryInBounds b f \<Longrightarrow> spec_clientFilter b f"
  by (auto simp add: primaryInBounds_def spec_clientFilter_def pointInRectangle_xy
      primaryLine_iff_lineIntersectsRectangle primaryPolygonInBounds_never list_ex_iff
      split: option.splits geometry.splits)

lemma spec_clientFilter_layerName [simp]:
  "spec_clientFilter b (f\<lparr> layerName := n \<rparr>) = spec_clientFilter b f"
  by (simp add: spec_clientFilter_def)

lemma wide_clientFilter_layerName [simp]:
  "wide_clientFilter b (f\<lparr> layerName := n \<rparr>) = wide_clientFilter b f"
  by (simp add: wide_clientFilter_def)

lemma spec_polygon_wide: "spec_polygonFilter b rings \<Longrightarrow> wide_polygonFilter b rings"
  by (auto simp add: spec_polygonFilter_def wide_polygonFilter_def split: list.splits)

lemma spec_wide: "spec_clientFilter b f \<Longrightarrow> wide_clientFilter b f"
  by (auto simp add: spec_clientFilter_def wide_clientFilter_def wide_lineFilter_def list_ex_iff
      dest: spec_polygon_wide split: option.splits geometry.splits)

lemma fallbackLine_wide: "fallbackLineInBounds b line \<Longrightarrow> wide_lineFilter b line"
  by (auto simp add: fallbackLineInBounds_def wide_lineFilter_def Let_def
      boundingBoxOverlaps_iff coordinateBoxOverlaps_def lineIntersectsRectangle_def
      list_ex_iff pointInRectangle_xy)

lemma fallbackPolygon_wide:
  "fallbackPolygonInBounds b rings = Inr True \<Longrightarrow> wide_polygonFilter b rings"
  by (auto simp add: fallbackPolygonInBounds_def wide_polygonFilter_def Let_def list_ex_iff
      pointInRectangle_xy split: list.splits)

lemma some_throwing_True:
  "some_throwing f xs = Inr True \<Longrightarrow> \<exists>x \<in> set xs. f x = Inr True"
  by (induction xs) (auto split: sum.splits if_splits)

lemma fallbackInBounds_wide:
  assumes "fallbackInBounds b f = Inr True"
  shows "wide_clientFilter b f"
proof (cases "geometry f")
  case None
  with assms show ?thesis by (simp add: fallbackInBounds_def)
next
  case (Some g)
  show ?thesis
  proof (cases g)
    case (Point p)
    with Some assms show ?thesis
      by (simp add: fallbackInBounds_def wide_clientFilter_def pointInRectangle_xy)
  next
    case (LineString line)
    with Some assms show ?thesis
      by (simp add: fallbackInBounds_def wide_clientFilter_def fallbackLine_wide)
  next
    case (MultiLineString lines)
    with Some assms have "\<exists>line \<in> set lines. fallbackLineInBounds b line"
      by (simp add: fallbackInBounds_def list_ex_iff)
    then have "\<exists>line \<in> set lines. wide_lineFilter b line"
      using fallbackLine_wide by blast
    with Some MultiLineString show ?thesis
      by (simp add: wide_clientFilter_def list_ex_iff)
  next
    case (Polygon rings)
    with Some assms have "some_throwing (fallbackPolygonInBounds b) [rings] = Inr True"
      by (simp add: fallbackInBounds_def)
    then have "\<exists>x \<in> set [rings]. fallbackPolygonInBounds b x = Inr True"
      by (rule some_throwing_True)
    then have "wide_polygonFilter b rings"
      by (simp add: fallbackPolygon_wide)
    with Some Polygon show ?thesis
      by (simp add: wide_clientFilter_def)
  next
    case (MultiPolygon polygons)
    with Some assms have "some_throwing (fallbackPolygonInBounds b) polygons = Inr True"
      by (simp add: fallbackInBounds_def)
    then have "\<exists>x \<in> set polygons. fallbackPolygonInBounds b x = Inr True"
      by (rule some_throwing_True)
    then have "\<exists>x \<in> set polygons. wide_polygonFilter b x"
      using fallbackPolygon_wide by blast
    with Some MultiPolygon show ?thesis
      by (simp add: wide_clientFilter_def list_ex_iff)
  next
    case OtherGeometry
    with Some assms show ?thesis by (simp add: fallbackInBounds_def)
  qed
qed

lemma filter_throwing_kept:
  "filter_throwing f xs = Inr ys \<Longrightarrow> y \<in> set ys \<Longrightarrow> f y = Inr True \<and> y \<in> set xs"
proof (induction xs arbitrary: ys)
  case Nil
  then show ?case by simp
next
  case (Cons x xs)
  then show ?case
    by (auto split: sum.splits if_splits)
qed

lemma primaryThen_resolved:
  "primaryThen l b r = Inr fs \<Longrightarrow> f \<in> set fs \<Longrightarrow>
   layerName f = Some (name l) \<and> spec_clientFilter b f"
  by (auto simp add: primaryThen_def withLayerName_def primaryInBounds_spec
      split: http.splits body.splits option.splits if_splits)

lemma fallbackThen_Inr_cases:
  assumes "fallbackThen l b r = Inr fs"
  shows "fs = [] \<or> (\<exists>features kept. filter_throwing (fallbackInBounds b) features = Inr kept \<and>
            fs = withLayerName l kept)"
proof (cases r)
  case Rejected
  with assms show ?thesis by (simp add: fallbackThen_def)
next
  case (Response ok payload)
  show ?thesis
  proof (cases payload)
    case Unparsable
    with Response assms show ?thesis by (simp add: fallbackThen_def)
  next
    case (Parsed opt)
    show ?thesis
    proof (cases opt)
      case None
      with Parsed Response assms show ?thesis by (simp add: fallbackThen_def)
    next
      case (Some features)
      show ?thesis
      proof (cases "filter_throwing (fallbackInBounds b) features")
        case (Inl e)
        with Some Parsed Response assms show ?thesis
          by (simp add: fallbackThen_def split: if_splits)
      next
        case (Inr kept)
        with Some Parsed Response assms have "fs = [] \<or> fs = withLayerName l kept"
          by (simp add: fallbackThen_def split: if_splits)
        with Inr show ?thesis by blast
      qed
    qed
  qed
qed

lemma fallbackThen_resolved:
  assumes "fallbackThen l b r = Inr fs" and "f \<in> set fs"
  shows "layerName f = Some (name l) \<and> wide_clientFilter b f"
proof -
  have "fs \<noteq> []" using assms(2) by auto
  with fallbackThen_Inr_cases [OF assms(1)] obtain features kept where
    kept: "filter_throwing (fallbackInBounds b) features = Inr kept"
    and fs: "fs = withLayerName l kept"
    by blast
  from assms(2) have "f \<in> (\<lambda>g. g\<lparr> layerName := Some (name l) \<rparr>) ` set kept"
    by (simp add: fs withLayerName_def)
  then obtain g where g: "g \<in> set kept" and f: "f = g\<lparr> layerName := Some (name l) \<rparr>"
    by blast
  have "fallbackInBounds b g = Inr True"
    using filter_throwing_kept [OF kept g] by simp
  then have "wide_clientFilter b g"
    by (rule fallbackInBounds_wide)
  then have "wide_clientFilter b f"
    by (simp add: f)
  moreover have "layerName f = Some (name l)"
    by (simp add: f)
  ultimately show ?thesis by simp
qed

lemma primaryThen_fails_iff:
  "(\<exists>e. primaryThen l b r = Inl e) = primaryAttemptFails r"
  by (auto simp add: primaryThen_def primaryAttemptFails_def
      split: http.splits body.splits option.splits if_splits)

lemma fetchQueryEnhanced_resolves:
  "\<exists>fs. outcome (fetchQueryEnhanced net l b z) = Inr fs"
  by (simp add: fetchQueryEnhanced_def Let_def split: sum.splits)

lemma fetchQueryEnhanced_filtered:
  assumes "outcome (fetchQueryEnhanced net l b z) = Inr fs" and "f \<in> set fs"
  shows "layerName f = Some (name l) \<and> wide_clientFilter b f \<and>
         (\<not> primaryAttemptFails (fetch net (url l) (queryUrl b z)) \<longrightarrow> spec_clientFilter b f)"
proof (cases "primaryThen l b (fetch net (url l) (queryUrl b z))")
  case (Inr gs)
  with assms have "fs = gs" by (simp add: fetchQueryEnhanced_def Let_def)
  with Inr assms(2) show ?thesis
    using primaryThen_resolved [of l b _ gs f] spec_wide by blast
next
  case (Inl e)
  then have fails: "primaryAttemptFails (fetch net (url l) (queryUrl b z))"
    using primaryThen_fails_iff by blast
  show ?thesis
  proof (cases "fallbackThen l b (fetch net (url l) (WhereAll 500))")
    case (Inr gs)
    with Inl assms have "fs = gs" by (simp add: fetchQueryEnhanced_def Let_def)
    with Inr assms(2) fails show ?thesis
      using fallbackThen_resolved [of l b _ gs f] by blast
  next
    case (Inl e')
    with \<open>primaryThen l b (fetch net (url l) (queryUrl b z)) = Inl e\<close> assms
    show ?thesis by (simp add: fetchQueryEnhanced_def Let_def)
  qed
qed

lemma queryLayer_native:
  "run net (url l) 100 b = FeatureCollection (Some features) \<Longrightarrow> features \<noteq> [] \<Longrightarrow>
   outcome (queryLayer net b l) = Inr (withLayerName l features)"
  by (simp add: queryLayer_def)

lemma queryLayer_fetched:
  "\<forall>features. run net (url l) 100 b = FeatureCollection (Some features) \<longrightarrow> features = [] \<Longrightarrow>
   outcome (queryLayer net b l) = outcome (fetchQueryEnhanced net l b 10)"
  by (auto simp add: queryLayer_def fetchQuery_def Let_def
      split: esri_result.splits option.splits)

lemma queryLayer_resolves: "\<exists>fs. outcome (queryLayer net b l) = Inr fs"
  using fetchQueryEnhanced_resolves [of net l b 10]
  by (auto simp add: queryLayer_def fetchQuery_def Let_def
      split: esri_result.splits option.splits)

section \<open>C1: which features of a layer are filtered on the client\<close>

text \<open>
  C1 (as amended). For one layer, when the native spatial query answers with at least one
  feature, \<open>queryFeaturesInBounds\<close> passes these features on as received, tagged with the
  layer name and without any client-side test. In every other case the layer's features
  come from \<open>fetchQueryEnhanced\<close>, and then each returned feature is tagged with the layer
  name and passes a client-side filter: if the first fetch succeeded, the filter of the
  specification (a point by inclusion in the rectangle, a line by
  \<open>lineIntersectsRectangle\<close>, a polygon by \<open>polygonIntersectsRectangle\<close>); if it failed and
  the features come from the second fetch, the wider filter in which a line also passes on
  bounding-box overlap and a polygon also on a vertex of its outer ring in the rectangle.
\<close>

theorem layer_result_filtered_unless_native:
  "(\<forall>features. run net (url l) 100 b = FeatureCollection (Some features) \<and> features \<noteq> []
      \<longrightarrow> outcome (queryLayer net b l) = Inr (withLayerName l features))
   \<and> ((\<forall>features. run net (url l) 100 b = FeatureCollection (Some features) \<longrightarrow> features = [])
      \<longrightarrow> (\<exists>fs. outcome (queryLayer net b l) = Inr fs \<and>
             (\<forall>f \<in> set fs. layerName f = Some (name l) \<and> wide_clientFilter b f) \<and>
             (\<not> primaryAttemptFails (fetch net (url l) (queryUrl b 10))
                \<longrightarrow> (\<forall>f \<in> set fs. spec_clientFilter b f))))"
proof (intro conjI allI impI)
  fix features
  assume "run net (url l) 100 b = FeatureCollection (Some features) \<and> features \<noteq> []"
  then show "outcome (queryLayer net b l) = Inr (withLayerName l features)"
    by (simp add: queryLayer_native)
next
  assume "\<forall>features. run net (url l) 100 b = FeatureCollection (Some features) \<longrightarrow> features = []"
  then have eq: "outcome (queryLayer net b l) = outcome (fetchQueryEnhanced net l b 10)"
    by (rule queryLayer_fetched)
  obtain fs where fs: "outcome (fetchQueryEnhanced net l b 10) = Inr fs"
    using fetchQueryEnhanced_resolves by blast
  show "\<exists>fs. outcome (queryLayer net b l) = Inr fs \<and>
             (\<forall>f \<in> set fs. layerName f = Some (name l) \<and> wide_clientFilter b f) \<and>
             (\<not> primaryAttemptFails (fetch net (url l) (queryUrl b 10))
                \<longrightarrow> (\<forall>f \<in> set fs. spec_clientFilter b f))"
    using eq fs fetchQueryEnhanced_filtered [OF fs] by auto
qed

lemmas net_examples =
  native_far_net_def dead_net_def bridges_down_net_def fetch_net_def
  unit_box_def inverted_box_def far_point_def near_point_def bridges_layer_def roads_layer_def
  bridges_only_def bridges_and_roads_def

lemmas orchestrator_defs =
  queryFeaturesInBounds_def visibleLayers_def queryLayer_def fetchQuery_def
  fetchQueryEnhanced_def primaryThen_def fallbackThen_def withLayerName_def queryUrl_def Let_def

text \<open>
  C1 as stated fails: the native query answers the bridges layer with a point at (50, 50),
  far outside the rectangle from (0, 0) to (10, 10), and the layer's result contains it.
\<close>

theorem native_result_unfiltered_counterexample:
  "outcome (queryLayer native_far_net unit_box bridges_layer)
     = Inr [far_point\<lparr> layerName := Some ''bridges'' \<rparr>]
   \<and> \<not> spec_clientFilter unit_box (far_point\<lparr> layerName := Some ''bridges'' \<rparr>)"
  by (simp add: net_examples orchestrator_defs spec_clientFilter_def xy_eq rect_of_def)

theorem layer_result_filtered_unless_native_witness:
  "outcome (queryLayer native_far_net unit_box bridges_layer)
     = Inr (withLayerName bridges_layer [far_point])
   \<and> outcome (queryLayer fetch_net unit_box bridges_layer)
     = Inr [near_point\<lparr> layerName := Some ''bridges'' \<rparr>]
   \<and> spec_clientFilter unit_box (near_point\<lparr> layerName := Some ''bridges'' \<rparr>)"
proof -
  have native: "run native_far_net (url bridges_layer) 100 unit_box
                  = FeatureCollection (Some [far_point]) \<and> [far_point] \<noteq> []"
    by (simp add: native_far_net_def)
  have not_found: "\<forall>features. run fetch_net (url bridges_layer) 100 unit_box
                   = FeatureCollection (Some features) \<longrightarrow> features = []"
    by (simp add: fetch_net_def)
  have ok: "\<not> primaryAttemptFails (fetch fetch_net (url bridges_layer) (queryUrl unit_box 10))"
    by (simp add: fetch_net_def primaryAttemptFails_def)
  have out: "outcome (queryLayer fetch_net unit_box bridges_layer)
               = Inr [near_point\<lparr> layerName := Some ''bridges'' \<rparr>]"
    by (simp add: net_examples orchestrator_defs primaryInBounds_def xy_eq)
  from layer_result_filtered_unless_native [of native_far_net bridges_layer unit_box]
  have "\<forall>features. run native_far_net (url bridges_layer) 100 unit_box
            = FeatureCollection (Some features) \<and> features \<noteq> []
          \<longrightarrow> outcome (queryLayer native_far_net unit_box bridges_layer)
                = Inr (withLayerName bridges_layer features)"
    by (rule conjunct1)
  with native
  have 1: "outcome (queryLayer native_far_net unit_box bridges_layer)
             = Inr (withLayerName bridges_layer [far_point])"
    by (elim allE impE)
  note layer_result_filtered_unless_native
         [of fetch_net bridges_layer unit_box, THEN conjunct2, THEN mp, OF not_found]
  then obtain fs where
    fs: "outcome (queryLayer fetch_net unit_box bridges_layer) = Inr fs"
    and spec: "\<not> primaryAttemptFails (fetch fetch_net (url bridges_layer) (queryUrl unit_box 10))
             \<longrightarrow> (\<forall>f \<in> set fs. spec_clientFilter unit_box f)"
    by blast
  from fs out have "fs = [near_point\<lparr> layerName := Some ''bridges'' \<rparr>]"
    by simp
  with spec ok
  have 2: "spec_clientFilter unit_box (near_point\<lparr> layerName := Some ''bridges'' \<rparr>)"
    by simp
  from 1 out 2 show ?thesis by simp
qed

section \<open>C2: the orchestrator always resolves, layer by layer\<close>

lemma promiseAll_resolved:
  "\<forall>p \<in> set ps. \<exists>x. p = Inr x \<Longrightarrow> promiseAll ps = Inr (map projr ps)"
  by (induction ps) auto


lemma queryFeaturesInBounds_not_rejected:
  "\<not> rejected (queryFeaturesInBounds net b ls)"
proof -
  have "\<forall>p \<in> set (map outcome (map (queryLayer net b) (visibleLayers ls))). \<exists>x. p = Inr x"
    using queryLayer_resolves by auto
  then have "promiseAll (map outcome (map (queryLayer net b) (visibleLayers ls)))
               = Inr (map projr (map outcome (map (queryLayer net b) (visibleLayers ls))))"
    by (rule promiseAll_resolved)
  then show ?thesis
    by (simp add: queryFeaturesInBounds_def Let_def)
qed


lemma queryFeaturesInBounds_issued:
  "requestsIssued (queryFeaturesInBounds net b ls)
     = concat (map (\<lambda>l. issued (queryLayer net b l)) (visibleLayers ls))"
proof -
  have "\<forall>p \<in> set (map outcome (map (queryLayer net b) (visibleLayers ls))). \<exists>x. p = Inr x"
    using queryLayer_resolves by auto
  then have "promiseAll (map outcome (map (queryLayer net b) (visibleLayers ls)))
               = Inr (map projr (map outcome (map (queryLayer net b) (visibleLayers ls))))"
    by (rule promiseAll_resolved)
  then show ?thesis
    by (simp add: queryFeaturesInBounds_def Let_def comp_def)
qed






section \<open>C4: the orchestrator does not validate the bounding box\<close>

lemma queryLayer_issues_native:
  "EsriWithin (url l) 100 b \<in> set (issued (queryLayer net b l))"
  by (simp add: queryLayer_def Let_def split: esri_result.splits option.splits)

text \<open>
  C4 as stated fails: with west and east, south and north swapped (a box that
  \<open>validateBounds\<close> itself accepts) and the bridges layer visible, the native query, the
  first fetch and the fallback fetch are all sent, and nothing is rejected.
\<close>

theorem inverted_bounds_queried_counterexample:
  "getEast inverted_box < getWest inverted_box
   \<and> getNorth inverted_box < getSouth inverted_box
   \<and> validateBounds inverted_box
   \<and> requestsIssued (queryFeaturesInBounds dead_net inverted_box bridges_only)
       = [EsriWithin (url bridges_layer) 100 inverted_box,
          Fetch (url bridges_layer) (queryUrl inverted_box 10),
          Fetch (url bridges_layer) (WhereAll 500)]
   \<and> \<not> rejected (queryFeaturesInBounds dead_net inverted_box bridges_only)"
  by (simp add: net_examples orchestrator_defs validateBounds_def)

text \<open>
  C4 (as amended). \<open>queryFeaturesInBounds\<close> does not validate its bounding box: for every
  box, malformed or not, it sends the native spatial query with that very box for each
  visible layer and is never rejected; no request is sent exactly when no layer is
  visible.
\<close>

theorem orchestrator_queries_any_bounds:
  "(\<forall>l \<in> set (visibleLayers ls).
       EsriWithin (url l) 100 b \<in> set (requestsIssued (queryFeaturesInBounds net b ls)))
   \<and> (requestsIssued (queryFeaturesInBounds net b ls) = [] \<longleftrightarrow> visibleLayers ls = [])
   \<and> \<not> rejected (queryFeaturesInBounds net b ls)"
proof (intro conjI ballI)
  fix l assume "l \<in> set (visibleLayers ls)"
  then show "EsriWithin (url l) 100 b \<in> set (requestsIssued (queryFeaturesInBounds net b ls))"
    using queryLayer_issues_native [of l b net]
    by (auto simp add: queryFeaturesInBounds_issued)
next
  show "requestsIssued (queryFeaturesInBounds net b ls) = [] \<longleftrightarrow> visibleLayers ls = []"
  proof
    assume e: "requestsIssued (queryFeaturesInBounds net b ls) = []"
    show "visibleLayers ls = []"
    proof (rule ccontr)
      assume "visibleLayers ls \<noteq> []"
      then obtain l where l: "l \<in> set (visibleLayers ls)"
        by (cases "visibleLayers ls") auto
      then have "EsriWithin (url l) 100 b \<in> set (requestsIssued (queryFeaturesInBounds net b ls))"
        using queryLayer_issues_native [of l b net]
        by (auto simp add: queryFeaturesInBounds_issued)
      with e show False by simp
    qed
  next
    assume "visibleLayers ls = []"
    then show "requestsIssued (queryFeaturesInBounds net b ls) = []"
      by (simp add: queryFeaturesInBounds_issued)
  qed
next
  show "\<not> rejected (queryFeaturesInBounds net b ls)"
    by (rule queryFeaturesInBounds_not_rejected)
qed

theorem orchestrator_queries_any_bounds_witness:
  "EsriWithin (url bridges_layer) 100 inverted_box
     \<in> set (requestsIssued (queryFeaturesInBounds dead_net inverted_box bridges_only))
   \<and> requestsIssued (queryFeaturesInBounds dead_net inverted_box bridges_only) \<noteq> []"
proof -
  have vis: "bridges_layer \<in> set (visibleLayers bridges_only)"
    by (simp add: visibleLayers_def bridges_only_def bridges_layer_def)
  then have ne: "visibleLayers bridges_only \<noteq> []"
    by auto
  note inst = orchestrator_queries_any_bounds [of bridges_only inverted_box dead_net]
  from inst vis have "EsriWithin (url bridges_layer) 100 inverted_box
     \<in> set (requestsIssued (queryFeaturesInBounds dead_net inverted_box bridges_only))"
    by blast
  moreover from inst ne have "requestsIssued (queryFeaturesInBounds dead_net inverted_box bridges_only) \<noteq> []"
    by blast
  ultimately show ?thesis by simp
qed

section \<open>C5: the query strategy by zoom level\<close>

lemma queryUrl_very_low_zoom: "zoomLevel < 8 \<Longrightarrow> queryUrl b zoomLevel = WhereAll 1000"
  by (simp add: queryUrl_def)

lemma queryUrl_low_zoom:
  "8 \<le> zoomLevel \<Longrightarrow> zoomLevel < 10 \<Longrightarrow>
   queryUrl b zoomLevel =
     Intersects 500 \<lparr> xmin = getWest b - 0.1, ymin = getSouth b - 0.1,
                       xmax = getEast b + 0.1, ymax = getNorth b + 0.1 \<rparr>"
  by (simp add: queryUrl_def Let_def)

lemma queryUrl_normal_zoom:
  "10 \<le> zoomLevel \<Longrightarrow>
   queryUrl b zoomLevel =
     Intersects 500 \<lparr> xmin = getWest b - 0.001, ymin = getSouth b - 0.001,
                       xmax = getEast b + 0.001, ymax = getNorth b + 0.001 \<rparr>"
  by (simp add: queryUrl_def Let_def)


section \<open>C6: the area is the shoelace formula\<close>








section \<open>C7: finalizing a measurement with too few vertices\<close>

text \<open>
  C7 as stated fails: a line measurement with one vertex is active; after the double-click
  the tool is no longer measuring, and a click made after the 100 ms guard has expired
  adds no vertex.
\<close>

theorem finalize_ends_session_counterexample:
  "isMeasuringRef one_vertex_line
   \<and> measurePointsRef one_vertex_line = [\<lparr> lat = 40, lng = -83 \<rparr>]
   \<and> message (handleMapDoubleClick flatDistance one_vertex_line)
       = Text (crossMark @ '' Line measurement requires at least 2 points'')
   \<and> \<not> isMeasuring (handleMapDoubleClick flatDistance one_vertex_line)
   \<and> \<not> isMeasuringRef (handleMapDoubleClick flatDistance one_vertex_line)
   \<and> measurePointsRef
        (handleMapClick flatDistance \<lparr> lat = 40.01, lng = -83 \<rparr>
          (doubleClickTimeout (handleMapDoubleClick flatDistance one_vertex_line)))
       = [\<lparr> lat = 40, lng = -83 \<rparr>]"
  by (simp add: one_vertex_line_def handleMapClick_def handleMapDoubleClick_def
      startMeasuring_def initialMeasureTool_def doubleClickTimeout_def Let_def)

text \<open>
  C7 (as amended). When a measurement is finalized by a double-click with fewer vertices
  than its mode requires (2 for a line, 3 for an area), the message
  ``... requires at least N points'' is reported and the session ends: \<open>isMeasuring\<close> and
  \<open>isMeasuringRef\<close> become false, the vertices collected so far are kept, and a later click
  adds no vertex, before or after the 100 ms guard has expired.
\<close>

theorem finalize_with_too_few_vertices:
  "isMeasuringRef s \<and> length (measurePointsRef s) < requiredPoints (measureMode s) \<longrightarrow>
     message (handleMapDoubleClick d s)
       = Text (crossMark @
           (case measureMode s of
              LineMode \<Rightarrow> '' Line measurement requires at least 2 points''
            | AreaMode \<Rightarrow> '' Area measurement requires at least 3 points''))
     \<and> \<not> isMeasuring (handleMapDoubleClick d s)
     \<and> \<not> isMeasuringRef (handleMapDoubleClick d s)
     \<and> measurePointsRef (handleMapDoubleClick d s) = measurePointsRef s
     \<and> handleMapClick d p (handleMapDoubleClick d s) = handleMapDoubleClick d s
     \<and> handleMapClick d p (doubleClickTimeout (handleMapDoubleClick d s))
         = doubleClickTimeout (handleMapDoubleClick d s)"
  by (cases "measureMode s")
     (simp_all add: handleMapDoubleClick_def handleMapClick_def doubleClickTimeout_def
        requiredPoints_def Let_def)

theorem finalize_with_too_few_vertices_witness:
  "message (handleMapDoubleClick flatDistance one_vertex_line)
     = Text (crossMark @ '' Line measurement requires at least 2 points'')
   \<and> \<not> isMeasuring (handleMapDoubleClick flatDistance one_vertex_line)"
proof -
  have "isMeasuringRef one_vertex_line \<and>
        length (measurePointsRef one_vertex_line) < requiredPoints (measureMode one_vertex_line)"
    and "measureMode one_vertex_line = LineMode"
    by (simp_all add: one_vertex_line_def handleMapClick_def startMeasuring_def
        initialMeasureTool_def requiredPoints_def Let_def)
  then show ?thesis
    using finalize_with_too_few_vertices [of one_vertex_line flatDistance]
    by simp
qed

section \<open>C8: a drag below the pixel threshold\<close>

lemmas drawTool_defs =
  onMouseUp_def onMouseDown_def onMouseMove_def startDrawing_def stopDrawing_def
  rerender_def removeRectangle_def latLngBounds_def Let_def

text \<open>
  C8 as stated fails: the tool is armed and a drag has started at (40, -83); the pointer is
  released one pixel further; afterwards \<open>isDrawing\<close> is false and a new pointer-down is
  ignored.
\<close>

theorem short_drag_disarms_counterexample:
  "isDrawing dragging_tool
   \<and> \<not> isDrawing (onMouseUp hundredPixelsPerDegree \<lparr> lat = 40.01, lng = -82.99 \<rparr> dragging_tool)
   \<and> onMouseDown \<lparr> lat = 41, lng = -84 \<rparr>
        (onMouseUp hundredPixelsPerDegree \<lparr> lat = 40.01, lng = -82.99 \<rparr> dragging_tool)
       = onMouseUp hundredPixelsPerDegree \<lparr> lat = 40.01, lng = -82.99 \<rparr> dragging_tool"
  by (simp add: dragging_tool_def initialDrawTool_def hundredPixelsPerDegree_def drawTool_defs)

text \<open>
  C8 (as amended). For every Draw-Select drag whose pixel-space span on pointer-up is below
  10 pixels in width or in height, the in-progress rectangle is taken off the map and no
  query is issued; the tool is then deactivated: \<open>isDrawing\<close> is false and a further
  pointer-down is ignored (until \<open>startDrawing\<close> is called again).
\<close>

theorem short_drag_discarded:
  "isCurrentlyDrawing s \<and> startPointRef s = Some start \<and>
   (\<bar>fst (toPixel e) - fst (toPixel start)\<bar> < 10 \<or> \<bar>snd (toPixel e) - snd (toPixel start)\<bar> < 10)
   \<longrightarrow>
     queries (onMouseUp toPixel e s) = queries s
     \<and> (\<forall>r. rectangleRef (onMouseUp toPixel e s) = Some r \<longrightarrow> \<not> onMap r)
     \<and> \<not> isDrawing (onMouseUp toPixel e s)
     \<and> onMouseDown e' (onMouseUp toPixel e s) = onMouseUp toPixel e s"
  by (cases "rectangleRef s") (auto simp add: drawTool_defs)

theorem short_drag_discarded_witness:
  "queries (onMouseUp hundredPixelsPerDegree \<lparr> lat = 40.01, lng = -82.99 \<rparr> dragging_tool) = []
   \<and> \<not> isDrawing (onMouseUp hundredPixelsPerDegree \<lparr> lat = 40.01, lng = -82.99 \<rparr> dragging_tool)"
proof -
  have "isCurrentlyDrawing dragging_tool \<and>
        startPointRef dragging_tool = Some \<lparr> lat = 40, lng = -83 \<rparr> \<and>
        (\<bar>fst (hundredPixelsPerDegree \<lparr> lat = 40.01, lng = -82.99 \<rparr>)
           - fst (hundredPixelsPerDegree \<lparr> lat = 40, lng = -83 \<rparr>)\<bar> < 10 \<or>
         \<bar>snd (hundredPixelsPerDegree \<lparr> lat = 40.01, lng = -82.99 \<rparr>)
           - snd (hundredPixelsPerDegree \<lparr> lat = 40, lng = -83 \<rparr>)\<bar> < 10)"
    and "queries dragging_tool = []"
    by (simp_all add: dragging_tool_def initialDrawTool_def hundredPixelsPerDegree_def
        drawTool_defs)
  then show ?thesis
    using short_drag_discarded
      [of dragging_tool "\<lparr> lat = 40, lng = -83 \<rparr>" hundredPixelsPerDegree
          "\<lparr> lat = 40.01, lng = -82.99 \<rparr>"]
    by simp
qed

section \<open>C9: map dragging after the drag ends\<close>

lemma onMouseDown_disables_dragging:
  "isDrawing s \<Longrightarrow>
   \<not> draggingEnabled (onMouseDown e s) \<and>
   wasDraggingEnabled (onMouseDown e s) = draggingEnabled s"
  by (simp add: onMouseDown_def)

lemma onMouseUp_restores_dragging:
  "isCurrentlyDrawing s \<Longrightarrow> startPointRef s = Some start \<Longrightarrow> wasDraggingEnabled s \<Longrightarrow>
   draggingEnabled (onMouseUp toPixel e s)"
  by (simp add: onMouseUp_def rerender_def removeRectangle_def Let_def)

lemma stopDrawing_keeps_dragging: "draggingEnabled (stopDrawing s) = draggingEnabled s"
  by (simp add: stopDrawing_def rerender_def removeRectangle_def)

lemma stopDrawing_after_pointer_down:
  "isDrawing s \<Longrightarrow> \<not> draggingEnabled (stopDrawing (onMouseDown e s))"
  by (simp add: stopDrawing_def onMouseDown_def rerender_def removeRectangle_def)

lemma stopDrawing_forgets_drag:
  "isDrawing s \<Longrightarrow> \<not> isCurrentlyDrawing (stopDrawing s)"
  by (simp add: stopDrawing_def rerender_def removeRectangle_def)

text \<open>
  C9 at a failing input. Dragging is enabled; the tool is started and the pointer goes down,
  which disables dragging and remembers that it was enabled; \<open>stopDrawing\<close> is called before
  any pointer-up. Dragging stays disabled, the effect's variables are reset, and a later
  pointer-up changes nothing.
\<close>

theorem stopDrawing_leaves_dragging_disabled:
  "draggingEnabled initialDrawTool
   \<and> \<not> draggingEnabled dragging_tool
   \<and> wasDraggingEnabled dragging_tool
   \<and> \<not> draggingEnabled (stopDrawing dragging_tool)
   \<and> onMouseUp hundredPixelsPerDegree \<lparr> lat = 41, lng = -82 \<rparr> (stopDrawing dragging_tool)
       = stopDrawing dragging_tool"
  by (simp add: dragging_tool_def initialDrawTool_def hundredPixelsPerDegree_def drawTool_defs)

section \<open>C3: the query cache\<close>

lemma decimal_examples: "decimal 1 = ''1''" "decimal 100 = ''100''"
  by (simp_all add: digitChar_def)

lemma first_call_key: "cacheKeyOf first_call bridges_layer unit_box 1 100 = ''bridges_{}_1_100''"
  by (simp add: cacheKeyOf_def first_call_def bridges_layer_def digitChar_def)




lemma cacheKeyOf_laterCall [simp]:
  "cacheKeyOf (laterCall w r t) l b page limit = cacheKeyOf w l b page limit"
  by (simp add: cacheKeyOf_def laterCall_def)

lemma isCacheValid_stored:
  "isCacheValid (setCachedQuery c k d t1 t2) k t = (t < t2 + 300000)"
  by (simp add: isCacheValid_def setCachedQuery_def)



end
